theory Spec2Isabelle
  imports Main
begin

section \<open>The account linking module of the SATOSA proxy\<close>

text \<open>
  The module \<^verbatim>\<open>satosa/account_linking.py\<close> asks an external account linking service
  whether an (issuer, user id) pair is linked. The service, the session state of the
  proxy, the class \<^verbatim>\<open>InternalResponse\<close> and the continuation callback are collaborators
  of the module. Mutation is explicit state passing: every operation returns the context
  as it leaves it, and the list of the GET requests it has issued. Exceptions are the
  left summand of the result. Calls of \<^verbatim>\<open>satosa_logging\<close> are not modelled.
\<close>

subsection \<open>Collaborating data\<close>

definition STATE_KEY :: string where
  "STATE_KEY = ''ACCOUNT_LINKING''"

text \<open>
  Modelled from the spec: the class \<^verbatim>\<open>InternalResponse\<close> (\<^verbatim>\<open>satosa.internal_data\<close>) is
  not part of the module. The spec describes the identity as an issuer, a subject id and
  a mapping of attribute names to ordered sequences of values; the module reaches the
  issuer as \<^verbatim>\<open>internal_response.auth_info.issuer\<close> and the subject id through
  \<^verbatim>\<open>get_user_id\<close> and \<^verbatim>\<open>set_user_id\<close>.
\<close>

record AuthenticationInformation =
  issuer :: string

record InternalResponse =
  auth_info :: AuthenticationInformation
  user_id :: string
  attributes :: "(string \<times> string list) list"

definition get_user_id :: "InternalResponse \<Rightarrow> string" where
  "get_user_id internal_response = user_id internal_response"

definition set_user_id :: "InternalResponse \<Rightarrow> string \<Rightarrow> InternalResponse" where
  "set_user_id internal_response uid = internal_response\<lparr>user_id := uid\<rparr>"

text \<open>
  Modelled from the spec: \<^verbatim>\<open>to_dict\<close> and \<^verbatim>\<open>from_dict\<close> of \<^verbatim>\<open>InternalResponse\<close> are not
  part of the module. The spec calls the pending link state a serialization of the
  identity from which the identity is reconstructed; the serialized form holds the three
  components of the identity.
\<close>

datatype response_dict =
  ResponseDict (dict_issuer: string) (dict_usr_id: string) (dict_attr: "(string \<times> string list) list")

type_synonym State = "string \<rightharpoonup> response_dict"

datatype error =
    SATOSAAuthenticationError State string
  | KeyError string
  | AttributeError
  | MissingStateError

definition to_dict :: "InternalResponse \<Rightarrow> response_dict" where
  "to_dict internal_response =
     ResponseDict (issuer (auth_info internal_response)) (user_id internal_response)
       (attributes internal_response)"

text \<open>
  Modelled from the spec: the source hands whatever \<^verbatim>\<open>State.get\<close> returns to
  \<^verbatim>\<open>from_dict\<close> and has no check of its own; the spec says that the absence of the pending
  link state on callback is a fatal error (\<open>MissingStateError\<close>). Which Python exception
  that is depends on \<^verbatim>\<open>State.get\<close> and \<^verbatim>\<open>from_dict\<close>.
\<close>

fun from_dict :: "response_dict option \<Rightarrow> error + InternalResponse" where
  "from_dict None = Inl MissingStateError"
| "from_dict (Some (ResponseDict iss uid attr)) =
     Inr \<lparr>auth_info = \<lparr>issuer = iss\<rparr>, user_id = uid, attributes = attr\<rparr>"

text \<open>
  Modelled from the spec: the session state of the proxy (\<^verbatim>\<open>satosa.state.State\<close>) is an
  opaque key-value store with add, get and remove. \<^verbatim>\<open>add\<close> overwrites, \<^verbatim>\<open>get\<close> returns
  absent when there is no value, and \<^verbatim>\<open>remove\<close> of an absent key raises \<^verbatim>\<open>KeyError\<close>,
  the exception that \<^verbatim>\<open>manage_al\<close> catches.
\<close>

definition state_add :: "State \<Rightarrow> string \<Rightarrow> response_dict \<Rightarrow> State" where
  "state_add st k data = st(k \<mapsto> data)"

definition state_get :: "State \<Rightarrow> string \<Rightarrow> response_dict option" where
  "state_get st k = st k"

definition state_remove :: "State \<Rightarrow> string \<Rightarrow> error + State" where
  "state_remove st k = (case st k of None \<Rightarrow> Inl (KeyError k) | Some _ \<Rightarrow> Inr (st(k := None)))"

record Context =
  state :: State

text \<open>
  The continuation \<^verbatim>\<open>callback_func\<close> is supplied by the proxy. A call
  \<^verbatim>\<open>self.callback_func(context, internal_response)\<close> is kept as the value
  \<open>CallbackFunc context internal_response\<close>, which stands for the response that the
  callback produces, so that the arguments it receives can be read off the result.
\<close>

datatype Response =
    Redirect string
  | CallbackFunc Context InternalResponse

subsection \<open>Libraries\<close>

text \<open>
  What \<^verbatim>\<open>requests.get\<close> does with a request: it raises \<^verbatim>\<open>requests.ConnectionError\<close> or
  returns a response with a status code and a text.
\<close>

datatype http_result =
    ConnectionError
  | HttpResponse int string

record 'k RSAKey =
  key :: 'k
  use :: string
  alg :: string

text \<open>
  The functions of \<^verbatim>\<open>requests\<close>, \<^verbatim>\<open>json\<close> and \<^verbatim>\<open>jwkest\<close> that the module calls are
  parameters: \<open>requests_get\<close> is the behaviour of the service at the time of the call,
  \<open>json_dumps\<close> serializes a dictionary of strings given in insertion order,
  \<open>JWS_sign_compact msg a keys\<close> is \<^verbatim>\<open>JWS(msg, alg=a).sign_compact(keys)\<close>, and
  \<open>rsa_load\<close> reads the private key from the file named in the configuration.
\<close>

record 'k Libs =
  requests_get :: "string \<Rightarrow> http_result"
  json_dumps :: "(string \<times> string) list \<Rightarrow> string"
  JWS_sign_compact :: "string \<Rightarrow> string \<Rightarrow> 'k RSAKey list \<Rightarrow> string"
  rsa_load :: "string \<Rightarrow> 'k"

subsection \<open>Formatting an integer with \<^verbatim>\<open>%s\<close>\<close>

definition digit_char :: "nat \<Rightarrow> char" where
  "digit_char d = ''0123456789'' ! (d mod 10)"

function str_nat :: "nat \<Rightarrow> string" where
  "str_nat n = (if n < 10 then [digit_char n] else str_nat (n div 10) @ [digit_char (n mod 10)])"
  by pat_completeness auto
termination
  by (relation "measure (\<lambda>n. n)") auto

declare str_nat.simps [simp del]

definition str_int :: "int \<Rightarrow> string" where
  "str_int i = (if i < 0 then CHR ''-'' # str_nat (nat (- i)) else str_nat (nat i))"

subsection \<open>Configuration and construction\<close>

text \<open>
  The configuration is read as \<^verbatim>\<open>config["BASE"]\<close> and \<^verbatim>\<open>config["ACCOUNT_LINKING"]\<close>, whose
  key \<^verbatim>\<open>enable\<close> is optional. The attributes of the module other than \<open>config\<close> and
  \<open>enabled\<close> are set only when the module is enabled; reading them on a module that has
  none is an \<^verbatim>\<open>AttributeError\<close>. The attribute \<^verbatim>\<open>callback_func\<close> is not a field: a call
  of it is the value \<open>CallbackFunc\<close>.
\<close>

record ACCOUNT_LINKING_config =
  enable :: "bool option"
  config_api_url :: string
  config_redirect_url :: string
  sign_key :: string

record SATOSAConfig =
  BASE :: string
  ACCOUNT_LINKING :: "ACCOUNT_LINKING_config option"

record 'k Attributes =
  proxy_base :: string
  api_url :: string
  redirect_url :: string
  signing_key :: "'k RSAKey"
  endpoint :: string

record 'k AccountLinkingModule =
  config :: SATOSAConfig
  enabled :: bool
  attrs :: "'k Attributes option"

definition init :: "'k Libs \<Rightarrow> SATOSAConfig \<Rightarrow> 'k AccountLinkingModule" where
  "init libs cfg =
     (case ACCOUNT_LINKING cfg of
        None \<Rightarrow> \<lparr>config = cfg, enabled = False, attrs = None\<rparr>
      | Some al \<Rightarrow>
          if enable al = None \<or> enable al = Some True then
            \<lparr>config = cfg, enabled = True,
             attrs = Some \<lparr>proxy_base = BASE cfg,
                           api_url = config_api_url al,
                           redirect_url = config_redirect_url al,
                           signing_key = \<lparr>key = rsa_load libs (sign_key al), use = ''sig'', alg = ''RS256''\<rparr>,
                           endpoint = ''/handle_account_linking''\<rparr>\<rparr>
          else \<lparr>config = cfg, enabled = False, attrs = None\<rparr>)"

subsection \<open>The operations of the module\<close>

text \<open>
  The methods \<^verbatim>\<open>_get_uuid\<close>, \<^verbatim>\<open>_approve_new_id\<close> and \<^verbatim>\<open>_handle_al_response\<close> are
  \<open>get_uuid\<close>, \<open>approve_new_id\<close> and \<open>handle_al_response\<close>. \<open>get_uuid_request\<close> is the
  request that \<^verbatim>\<open>_get_uuid\<close> builds before it calls \<^verbatim>\<open>requests.get\<close>. The result of
  \<open>manage_al\<close> and of \<open>handle_al_response\<close> is the response or the exception, the context
  afterwards, and the requests issued.
\<close>

definition get_uuid_request :: "'k Libs \<Rightarrow> 'k Attributes \<Rightarrow> string \<Rightarrow> string \<Rightarrow> string" where
  "get_uuid_request libs self iss ident =
     (let data = [(''idp'', iss),
                  (''id'', ident),
                  (''redirect_endpoint'', proxy_base self @ ''/account_linking'' @ endpoint self)];
          jws = JWS_sign_compact libs (json_dumps libs data) (alg (signing_key self)) [signing_key self]
      in api_url self @ ''/get_id?jwt='' @ jws)"

definition get_uuid ::
  "'k Libs \<Rightarrow> 'k Attributes \<Rightarrow> Context \<Rightarrow> string \<Rightarrow> string \<Rightarrow> (error + int \<times> string) \<times> string list" where
  "get_uuid libs self context iss ident =
     (let request = get_uuid_request libs self iss ident in
      case requests_get libs request of
        ConnectionError \<Rightarrow>
          (Inl (SATOSAAuthenticationError (state context)
                  ''Could not connect to account linking service''), [request])
      | HttpResponse status_code txt \<Rightarrow>
          if status_code \<notin> set [200, 404] then
            (Inl (SATOSAAuthenticationError (state context)
                    (''Got status code '' @ [CHR 0x27] @ str_int status_code @ [CHR 0x27]
                       @ '' from account linking service'')), [request])
          else (Inr (status_code, txt), [request]))"

definition approve_new_id ::
  "'k Attributes \<Rightarrow> Context \<Rightarrow> InternalResponse \<Rightarrow> string \<Rightarrow> Response \<times> Context" where
  "approve_new_id self context internal_response ticket =
     (Redirect (redirect_url self @ ''/'' @ ticket),
      context\<lparr>state := state_add (state context) STATE_KEY (to_dict internal_response)\<rparr>)"

definition manage_al ::
  "'k Libs \<Rightarrow> 'k AccountLinkingModule \<Rightarrow> Context \<Rightarrow> InternalResponse
     \<Rightarrow> (error + Response) \<times> Context \<times> string list" where
  "manage_al libs self context internal_response =
     (if \<not> enabled self then (Inr (CallbackFunc context internal_response), context, [])
      else case attrs self of
        None \<Rightarrow> (Inl AttributeError, context, [])
      | Some a \<Rightarrow>
          (let iss = issuer (auth_info internal_response);
               ident = get_user_id internal_response
           in (case get_uuid libs a context iss ident of
                 (Inl e, sent) \<Rightarrow> (Inl e, context, sent)
               | (Inr (status_code, message), sent) \<Rightarrow>
                   if status_code = 200 then
                     (let internal_response' = set_user_id internal_response message
                      in (case state_remove (state context) STATE_KEY of
                            Inr st \<Rightarrow>
                              (Inr (CallbackFunc (context\<lparr>state := st\<rparr>) internal_response'),
                               context\<lparr>state := st\<rparr>, sent)
                          | Inl (KeyError k) \<Rightarrow>
                              (Inr (CallbackFunc context internal_response'), context, sent)
                          | Inl e \<Rightarrow> (Inl e, context, sent)))
                   else
                     (let (response, context') = approve_new_id a context internal_response message
                      in (Inr response, context', sent)))))"

definition handle_al_response ::
  "'k Libs \<Rightarrow> 'k AccountLinkingModule \<Rightarrow> Context \<Rightarrow> (error + Response) \<times> Context \<times> string list" where
  "handle_al_response libs self context =
     (let saved_state = state_get (state context) STATE_KEY in
      case from_dict saved_state of
        Inl e \<Rightarrow> (Inl e, context, [])
      | Inr internal_response \<Rightarrow> manage_al libs self context internal_response)"

subsection \<open>A concrete deployment\<close>

text \<open>
  The example of the specification: the proxy at \<^verbatim>\<open>https://proxy.example\<close>, the linking
  service at \<^verbatim>\<open>https://link.example\<close>, and the identity \<^verbatim>\<open>abc123\<close> issued by
  \<^verbatim>\<open>https://idp.example\<close>. The libraries of the example answer every request with the
  given reply and render the payload and its signature as plain text.
\<close>

definition example_libs :: "http_result \<Rightarrow> string Libs" where
  "example_libs reply =
     \<lparr>requests_get = (\<lambda>request. reply),
      json_dumps = (\<lambda>data. concat (map (\<lambda>(k, v). k @ ''='' @ v @ '';'') data)),
      JWS_sign_compact = (\<lambda>msg a keys. a @ ''.'' @ msg),
      rsa_load = (\<lambda>path. path)\<rparr>"

definition example_config :: "bool option \<Rightarrow> SATOSAConfig" where
  "example_config en =
     \<lparr>BASE = ''https://proxy.example'',
      ACCOUNT_LINKING = Some \<lparr>enable = en,
                               config_api_url = ''https://link.example/api'',
                               config_redirect_url = ''https://link.example/approve'',
                               sign_key = ''key.pem''\<rparr>\<rparr>"

definition example_attrs :: "string Attributes" where
  "example_attrs =
     \<lparr>proxy_base = ''https://proxy.example'',
      api_url = ''https://link.example/api'',
      redirect_url = ''https://link.example/approve'',
      signing_key = \<lparr>key = ''key.pem'', use = ''sig'', alg = ''RS256''\<rparr>,
      endpoint = ''/handle_account_linking''\<rparr>"

definition example_module :: "bool option \<Rightarrow> string AccountLinkingModule" where
  "example_module en = init (example_libs ConnectionError) (example_config en)"

definition example_identity :: InternalResponse where
  "example_identity =
     \<lparr>auth_info = \<lparr>issuer = ''https://idp.example''\<rparr>, user_id = ''abc123'',
      attributes = [(''mail'', [''user@idp.example''])]\<rparr>"

definition example_request :: string where
  "example_request =
     ''https://link.example/api/get_id?jwt=RS256.idp=https://idp.example;id=abc123;redirect_endpoint=https://proxy.example/account_linking/handle_account_linking;''"

definition example_pending :: Context where
  "example_pending = \<lparr>state = [STATE_KEY \<mapsto> to_dict example_identity]\<rparr>"

section \<open>Properties\<close>

subsection \<open>The example deployment and the answers of the service\<close>

lemma example_module_attrs:
  "enabled (example_module None) \<and> attrs (example_module None) = Some example_attrs
   \<and> enabled (example_module (Some True)) \<and> attrs (example_module (Some True)) = Some example_attrs
   \<and> \<not> enabled (example_module (Some False))"
  by (simp add: example_module_def init_def example_config_def example_attrs_def example_libs_def)

lemma get_uuid_ok:
  "requests_get libs (get_uuid_request libs a iss ident) = HttpResponse sc txt \<Longrightarrow> sc = 200 \<or> sc = 404
   \<Longrightarrow> get_uuid libs a context iss ident = (Inr (sc, txt), [get_uuid_request libs a iss ident])"
  by (auto simp: get_uuid_def Let_def)

lemma get_uuid_connection_error:
  "requests_get libs (get_uuid_request libs a iss ident) = ConnectionError
   \<Longrightarrow> get_uuid libs a context iss ident =
       (Inl (SATOSAAuthenticationError (state context) ''Could not connect to account linking service''),
        [get_uuid_request libs a iss ident])"
  by (simp add: get_uuid_def Let_def)

lemma get_uuid_status_error:
  "requests_get libs (get_uuid_request libs a iss ident) = HttpResponse sc txt \<Longrightarrow> sc \<noteq> 200 \<Longrightarrow> sc \<noteq> 404
   \<Longrightarrow> get_uuid libs a context iss ident =
       (Inl (SATOSAAuthenticationError (state context)
               (''Got status code '' @ [CHR 0x27] @ str_int sc @ [CHR 0x27] @ '' from account linking service'')),
        [get_uuid_request libs a iss ident])"
  by (simp add: get_uuid_def Let_def)

lemma manage_al_200:
  assumes "enabled self" "attrs self = Some a"
    and "requests_get libs (get_uuid_request libs a (issuer (auth_info ir)) (user_id ir)) = HttpResponse 200 U"
  shows "manage_al libs self context ir =
     (Inr (CallbackFunc (context\<lparr>state := (state context)(STATE_KEY := None)\<rparr>) (ir\<lparr>user_id := U\<rparr>)),
      context\<lparr>state := (state context)(STATE_KEY := None)\<rparr>,
      [get_uuid_request libs a (issuer (auth_info ir)) (user_id ir)])"
proof (cases "state context STATE_KEY")
  case None
  then have "(state context)(STATE_KEY := None) = state context" by (simp add: fun_upd_idem_iff)
  then have same: "context\<lparr>state := (state context)(STATE_KEY := None)\<rparr> = context" by simp
  have "state_remove (state context) STATE_KEY = Inl (KeyError STATE_KEY)"
    using None by (simp add: state_remove_def)
  then show ?thesis
    using assms same
    by (simp add: manage_al_def get_user_id_def set_user_id_def get_uuid_ok)
next
  case (Some d)
  then have "state_remove (state context) STATE_KEY = Inr ((state context)(STATE_KEY := None))"
    by (simp add: state_remove_def)
  then show ?thesis
    using assms
    by (simp add: manage_al_def get_user_id_def set_user_id_def get_uuid_ok)
qed

lemma manage_al_404:
  assumes "enabled self" "attrs self = Some a"
    and "requests_get libs (get_uuid_request libs a (issuer (auth_info ir)) (user_id ir)) = HttpResponse 404 T"
  shows "manage_al libs self context ir =
     (Inr (Redirect (redirect_url a @ ''/'' @ T)),
      context\<lparr>state := (state context)(STATE_KEY \<mapsto> to_dict ir)\<rparr>,
      [get_uuid_request libs a (issuer (auth_info ir)) (user_id ir)])"
  using assms
  by (simp add: manage_al_def get_user_id_def get_uuid_ok approve_new_id_def state_add_def)

lemma manage_al_connection_error:
  assumes "enabled self" "attrs self = Some a"
    and "requests_get libs (get_uuid_request libs a (issuer (auth_info ir)) (user_id ir)) = ConnectionError"
  shows "manage_al libs self context ir =
     (Inl (SATOSAAuthenticationError (state context) ''Could not connect to account linking service''),
      context, [get_uuid_request libs a (issuer (auth_info ir)) (user_id ir)])"
  using assms by (simp add: manage_al_def get_user_id_def get_uuid_connection_error)

lemma manage_al_status_error:
  assumes "enabled self" "attrs self = Some a"
    and "requests_get libs (get_uuid_request libs a (issuer (auth_info ir)) (user_id ir)) = HttpResponse sc txt"
    and "sc \<noteq> 200" "sc \<noteq> 404"
  shows "manage_al libs self context ir =
     (Inl (SATOSAAuthenticationError (state context)
             (''Got status code '' @ [CHR 0x27] @ str_int sc @ [CHR 0x27] @ '' from account linking service'')),
      context, [get_uuid_request libs a (issuer (auth_info ir)) (user_id ir)])"
  using assms by (simp add: manage_al_def get_user_id_def get_uuid_status_error)

lemma from_dict_to_dict: "from_dict (Some (to_dict ir)) = Inr ir"
  by (simp add: to_dict_def)

lemma from_dict_Some:
  "from_dict (Some d) = Inr \<lparr>auth_info = \<lparr>issuer = dict_issuer d\<rparr>, user_id = dict_usr_id d, attributes = dict_attr d\<rparr>"
  by (cases d) simp

lemma handle_al_response_present:
  "state context STATE_KEY = Some d \<Longrightarrow>
   handle_al_response libs self context =
     manage_al libs self context
       \<lparr>auth_info = \<lparr>issuer = dict_issuer d\<rparr>, user_id = dict_usr_id d, attributes = dict_attr d\<rparr>"
  by (simp add: handle_al_response_def state_get_def from_dict_Some)

lemma handle_al_response_saved:
  "state context STATE_KEY = Some (to_dict ir) \<Longrightarrow>
   handle_al_response libs self context = manage_al libs self context ir"
  by (simp add: handle_al_response_def state_get_def from_dict_to_dict)

lemma handle_al_response_absent:
  "state context STATE_KEY = None \<Longrightarrow>
   handle_al_response libs self context = (Inl MissingStateError, context, [])"
  by (simp add: handle_al_response_def state_get_def)

lemma to_dict_from_dict:
  "to_dict \<lparr>auth_info = \<lparr>issuer = dict_issuer d\<rparr>, user_id = dict_usr_id d, attributes = dict_attr d\<rparr> = d"
  by (simp add: to_dict_def)

lemma init_enabled:
  assumes "ACCOUNT_LINKING cfg = Some al" and "enable al \<noteq> Some False"
  shows "enabled (init libs cfg)"
    and "attrs (init libs cfg) =
           Some \<lparr>proxy_base = BASE cfg, api_url = config_api_url al,
                 redirect_url = config_redirect_url al,
                 signing_key = \<lparr>key = rsa_load libs (sign_key al), use = ''sig'', alg = ''RS256''\<rparr>,
                 endpoint = ''/handle_account_linking''\<rparr>"
  using assms by (cases "enable al"; simp add: init_def)+

lemma manage_al_sent:
  assumes "enabled self" and "attrs self = Some a"
  shows "snd (snd (manage_al libs self context ir)) =
           [get_uuid_request libs a (issuer (auth_info ir)) (get_user_id ir)]"
proof (cases "requests_get libs (get_uuid_request libs a (issuer (auth_info ir)) (user_id ir))")
  case ConnectionError
  then show ?thesis
    using assms manage_al_connection_error [of self a libs ir "context"]
    by (simp add: get_user_id_def)
next
  case (HttpResponse sc body)
  consider "sc = 200" | "sc = 404" | "sc \<noteq> 200" "sc \<noteq> 404" by blast
  then show ?thesis
  proof cases
    case 1
    then show ?thesis
      using assms HttpResponse manage_al_200 [of self a libs ir body "context"]
      by (simp add: get_user_id_def)
  next
    case 2
    then show ?thesis
      using assms HttpResponse manage_al_404 [of self a libs ir body "context"]
      by (simp add: get_user_id_def)
  next
    case 3
    then show ?thesis
      using assms HttpResponse manage_al_status_error [of self a libs ir sc body "context"]
      by (simp add: get_user_id_def)
  qed
qed

lemmas example_defs =
  example_pending_def set_user_id_def get_user_id_def example_identity_def
  get_uuid_request_def example_libs_def example_attrs_def example_request_def
  to_dict_def state_get_def

subsection \<open>The linked pair\<close>

text \<open>
  C1. When the module is enabled and the service answers the query for the identity with
  status 200 and body \<open>U\<close>, \<open>manage_al\<close> sets the user id of the identity to \<open>U\<close>, removes
  the value under \<open>STATE_KEY\<close> from the session state, whether or not there is one, and
  calls the continuation with that context and the updated identity; no pending state is
  left under \<open>STATE_KEY\<close>.
\<close>

theorem manage_al_linked:
  assumes "enabled self" and "attrs self = Some a"
    and "requests_get libs (get_uuid_request libs a (issuer (auth_info ir)) (get_user_id ir)) = HttpResponse 200 U"
  shows "manage_al libs self context ir =
           (Inr (CallbackFunc (context\<lparr>state := (state context)(STATE_KEY := None)\<rparr>)
                   (set_user_id ir U)),
            context\<lparr>state := (state context)(STATE_KEY := None)\<rparr>,
            [get_uuid_request libs a (issuer (auth_info ir)) (get_user_id ir)])
         \<and> get_user_id (set_user_id ir U) = U
         \<and> state_get (state (fst (snd (manage_al libs self context ir)))) STATE_KEY = None"
  using assms manage_al_200 [of self a libs ir U "context"]
  by (simp add: get_user_id_def set_user_id_def state_get_def)

theorem manage_al_linked_witness:
  "enabled (example_module None) \<and> attrs (example_module None) = Some example_attrs
   \<and> requests_get (example_libs (HttpResponse 200 ''acct-9f3''))
        (get_uuid_request (example_libs (HttpResponse 200 ''acct-9f3'')) example_attrs
           (issuer (auth_info example_identity)) (get_user_id example_identity))
      = HttpResponse 200 ''acct-9f3''
   \<and> manage_al (example_libs (HttpResponse 200 ''acct-9f3'')) (example_module None)
        example_pending example_identity =
       (Inr (CallbackFunc \<lparr>state = Map.empty\<rparr>
               \<lparr>auth_info = \<lparr>issuer = ''https://idp.example''\<rparr>, user_id = ''acct-9f3'',
                attributes = [(''mail'', [''user@idp.example''])]\<rparr>),
        \<lparr>state = Map.empty\<rparr>, [example_request])"
proof -
  have h1: "enabled (example_module None)" and h2: "attrs (example_module None) = Some example_attrs"
    using example_module_attrs by simp_all
  have h3: "requests_get (example_libs (HttpResponse 200 ''acct-9f3''))
        (get_uuid_request (example_libs (HttpResponse 200 ''acct-9f3'')) example_attrs
           (issuer (auth_info example_identity)) (get_user_id example_identity))
      = HttpResponse 200 ''acct-9f3''"
    by (simp add: example_libs_def)
  show ?thesis
    using h1 h2 h3 manage_al_linked [OF h1 h2 h3, of example_pending]
    by (simp add: example_pending_def set_user_id_def get_user_id_def example_identity_def
          get_uuid_request_def example_libs_def example_attrs_def example_request_def)
qed

subsection \<open>The pair that is not linked yet\<close>

text \<open>
  C2. When the module is enabled and the service answers with status 404 and body \<open>T\<close>,
  \<open>manage_al\<close> stores the serialized identity, as it was handed in, under \<open>STATE_KEY\<close>,
  over any value that was there, and returns a redirect to the configured redirect URL
  followed by a slash and \<open>T\<close>.
\<close>

theorem manage_al_pending_approval:
  assumes "enabled self" and "attrs self = Some a"
    and "requests_get libs (get_uuid_request libs a (issuer (auth_info ir)) (get_user_id ir)) = HttpResponse 404 T"
  shows "manage_al libs self context ir =
           (Inr (Redirect (redirect_url a @ ''/'' @ T)),
            context\<lparr>state := (state context)(STATE_KEY \<mapsto> to_dict ir)\<rparr>,
            [get_uuid_request libs a (issuer (auth_info ir)) (get_user_id ir)])
         \<and> state_get (state (fst (snd (manage_al libs self context ir)))) STATE_KEY = Some (to_dict ir)"
  using assms manage_al_404 [of self a libs ir T "context"]
  by (simp add: get_user_id_def state_get_def)

theorem manage_al_pending_approval_witness:
  "enabled (example_module None) \<and> attrs (example_module None) = Some example_attrs
   \<and> requests_get (example_libs (HttpResponse 404 ''ticket-77''))
        (get_uuid_request (example_libs (HttpResponse 404 ''ticket-77'')) example_attrs
           (issuer (auth_info example_identity)) (get_user_id example_identity))
      = HttpResponse 404 ''ticket-77''
   \<and> manage_al (example_libs (HttpResponse 404 ''ticket-77'')) (example_module None)
        \<lparr>state = Map.empty\<rparr> example_identity =
       (Inr (Redirect ''https://link.example/approve/ticket-77''),
        \<lparr>state = [STATE_KEY \<mapsto> ResponseDict ''https://idp.example'' ''abc123''
                                  [(''mail'', [''user@idp.example''])]]\<rparr>,
        [example_request])"
proof -
  have h1: "enabled (example_module None)" and h2: "attrs (example_module None) = Some example_attrs"
    using example_module_attrs by simp_all
  have h3: "requests_get (example_libs (HttpResponse 404 ''ticket-77''))
        (get_uuid_request (example_libs (HttpResponse 404 ''ticket-77'')) example_attrs
           (issuer (auth_info example_identity)) (get_user_id example_identity))
      = HttpResponse 404 ''ticket-77''"
    by (simp add: example_libs_def)
  show ?thesis
    using h1 h2 h3 manage_al_pending_approval [OF h1 h2 h3, of "\<lparr>state = Map.empty\<rparr>"]
    by (simp add: example_defs)
qed

subsection \<open>The callback endpoint\<close>

text \<open>
  C3, as stated, fails. The handler of the callback endpoint reads the state with
  \<^verbatim>\<open>context.state.get(STATE_KEY)\<close> and removes nothing: with a pending link state in the
  session and a service that answers 500, the handler ends in the authentication error
  and the pending link state is still in the session.
\<close>

theorem handle_al_response_removes_counterexample:
  "state_get (state example_pending) STATE_KEY = Some (to_dict example_identity)
   \<and> handle_al_response (example_libs (HttpResponse 500 ''Internal Server Error''))
        (example_module None) example_pending =
       (Inl (SATOSAAuthenticationError (state example_pending)
               (''Got status code '' @ [CHR 0x27] @ ''500'' @ [CHR 0x27] @ '' from account linking service'')),
        example_pending, [example_request])
   \<and> state_get (state (fst (snd (handle_al_response (example_libs (HttpResponse 500 ''Internal Server Error''))
                                   (example_module None) example_pending)))) STATE_KEY \<noteq> None"
proof -
  have h0: "state example_pending STATE_KEY = Some (to_dict example_identity)"
    by (simp add: example_pending_def)
  have h1: "enabled (example_module None)" and h2: "attrs (example_module None) = Some example_attrs"
    using example_module_attrs by simp_all
  have r: "requests_get (example_libs (HttpResponse 500 ''Internal Server Error''))
        (get_uuid_request (example_libs (HttpResponse 500 ''Internal Server Error'')) example_attrs
           (issuer (auth_info example_identity)) (user_id example_identity))
       = HttpResponse 500 ''Internal Server Error''"
    by (simp add: example_libs_def)
  have s500: "str_int 500 = ''500''"
    by code_simp
  have "handle_al_response (example_libs (HttpResponse 500 ''Internal Server Error''))
          (example_module None) example_pending =
        manage_al (example_libs (HttpResponse 500 ''Internal Server Error''))
          (example_module None) example_pending example_identity"
    using h0 by (rule handle_al_response_saved)
  also have "\<dots> = (Inl (SATOSAAuthenticationError (state example_pending)
               (''Got status code '' @ [CHR 0x27] @ ''500'' @ [CHR 0x27] @ '' from account linking service'')),
        example_pending, [example_request])"
    using manage_al_status_error [OF h1 h2 r, of example_pending]
    by (simp add: s500 example_defs)
  finally show ?thesis
    using h0 by (simp add: state_get_def)
qed

text \<open>
  C3, amended. The handler reads the value under \<open>STATE_KEY\<close> and does not remove it.
  With no value there it fails before any request is issued and leaves the context as it
  was. With a value \<open>d\<close> there it runs \<open>manage_al\<close> on the unchanged context with the
  identity reconstructed from \<open>d\<close>; in an enabled module the value is gone afterwards
  exactly when the service has answered 200, and is \<open>d\<close> otherwise.
\<close>

theorem handle_al_response_load:
  "(state_get (state ctx) STATE_KEY = None
      \<longrightarrow> handle_al_response libs self ctx = (Inl MissingStateError, ctx, []))
   \<and> (state_get (state ctx) STATE_KEY = Some d
      \<longrightarrow> (\<exists>ir. from_dict (Some d) = Inr ir
                \<and> handle_al_response libs self ctx = manage_al libs self ctx ir))
   \<and> (state_get (state ctx) STATE_KEY = Some d \<and> enabled self \<and> attrs self = Some a
      \<longrightarrow> state_get (state (fst (snd (handle_al_response libs self ctx)))) STATE_KEY =
            (case requests_get libs (get_uuid_request libs a (dict_issuer d) (dict_usr_id d)) of
               ConnectionError \<Rightarrow> Some d
             | HttpResponse sc body \<Rightarrow> if sc = 200 then None else Some d))"
proof (intro conjI impI)
  assume "state_get (state ctx) STATE_KEY = None"
  then show "handle_al_response libs self ctx = (Inl MissingStateError, ctx, [])"
    using handle_al_response_absent [of ctx libs self] by (simp add: state_get_def)
next
  assume "state_get (state ctx) STATE_KEY = Some d"
  then show "\<exists>ir. from_dict (Some d) = Inr ir
                \<and> handle_al_response libs self ctx = manage_al libs self ctx ir"
    using handle_al_response_present [of ctx d libs self] from_dict_Some [of d]
    by (simp add: state_get_def)
next
  let ?ir = "\<lparr>auth_info = \<lparr>issuer = dict_issuer d\<rparr>, user_id = dict_usr_id d, attributes = dict_attr d\<rparr>"
  let ?reply = "requests_get libs (get_uuid_request libs a (dict_issuer d) (dict_usr_id d))"
  assume "state_get (state ctx) STATE_KEY = Some d \<and> enabled self \<and> attrs self = Some a"
  then have present: "state ctx STATE_KEY = Some d" and en: "enabled self" and at: "attrs self = Some a"
    by (simp_all add: state_get_def)
  have eq: "handle_al_response libs self ctx = manage_al libs self ctx ?ir"
    using present by (rule handle_al_response_present)
  show "state_get (state (fst (snd (handle_al_response libs self ctx)))) STATE_KEY =
            (case ?reply of ConnectionError \<Rightarrow> Some d
             | HttpResponse sc body \<Rightarrow> if sc = 200 then None else Some d)"
  proof (cases ?reply)
    case ConnectionError
    then show ?thesis
      using eq present manage_al_connection_error [OF en at, of libs ?ir ctx]
      by (simp add: state_get_def)
  next
    case (HttpResponse sc body)
    consider "sc = 200" | "sc = 404" | "sc \<noteq> 200" "sc \<noteq> 404" by blast
    then show ?thesis
    proof cases
      case 1
      then show ?thesis
        using eq HttpResponse manage_al_200 [OF en at, of libs ?ir body ctx]
        by (simp add: state_get_def)
    next
      case 2
      then show ?thesis
        using eq HttpResponse manage_al_404 [OF en at, of libs ?ir body ctx] to_dict_from_dict [of d]
        by (simp add: state_get_def)
    next
      case 3
      then show ?thesis
        using eq present HttpResponse manage_al_status_error [OF en at, of libs ?ir sc body ctx]
        by (simp add: state_get_def)
    qed
  qed
qed

theorem handle_al_response_load_witness:
  "state_get (state \<lparr>state = Map.empty\<rparr>) STATE_KEY = None
   \<and> handle_al_response (example_libs (HttpResponse 200 ''acct-9f3'')) (example_module None)
        \<lparr>state = Map.empty\<rparr> = (Inl MissingStateError, \<lparr>state = Map.empty\<rparr>, [])
   \<and> state_get (state example_pending) STATE_KEY = Some (to_dict example_identity)
   \<and> enabled (example_module None) \<and> attrs (example_module None) = Some example_attrs
   \<and> handle_al_response (example_libs (HttpResponse 404 ''ticket-77'')) (example_module None) example_pending =
       manage_al (example_libs (HttpResponse 404 ''ticket-77'')) (example_module None) example_pending
         example_identity
   \<and> state_get (state (fst (snd (handle_al_response (example_libs (HttpResponse 404 ''ticket-77''))
                                   (example_module None) example_pending)))) STATE_KEY
       = Some (to_dict example_identity)
   \<and> state_get (state (fst (snd (handle_al_response (example_libs (HttpResponse 200 ''acct-9f3''))
                                   (example_module None) example_pending)))) STATE_KEY
       = None"
proof -
  have a0: "state_get (state \<lparr>state = Map.empty\<rparr>) STATE_KEY = None"
    by (simp add: state_get_def)
  have h0: "state_get (state example_pending) STATE_KEY = Some (to_dict example_identity)"
    by (simp add: state_get_def example_pending_def)
  have h1: "enabled (example_module None)" and h2: "attrs (example_module None) = Some example_attrs"
    using example_module_attrs by simp_all
  note absent = handle_al_response_load [where ctx = "\<lparr>state = Map.empty\<rparr>"
      and libs = "example_libs (HttpResponse 200 ''acct-9f3'')" and self = "example_module None"
      and d = "to_dict example_identity" and a = example_attrs]
  note pending = handle_al_response_load [where ctx = example_pending
      and libs = "example_libs (HttpResponse 404 ''ticket-77'')" and self = "example_module None"
      and d = "to_dict example_identity" and a = example_attrs]
  note linked = handle_al_response_load [where ctx = example_pending
      and libs = "example_libs (HttpResponse 200 ''acct-9f3'')" and self = "example_module None"
      and d = "to_dict example_identity" and a = example_attrs]
  from absent a0 have e1: "handle_al_response (example_libs (HttpResponse 200 ''acct-9f3''))
       (example_module None) \<lparr>state = Map.empty\<rparr> = (Inl MissingStateError, \<lparr>state = Map.empty\<rparr>, [])"
    by blast
  from pending h0 have e2: "handle_al_response (example_libs (HttpResponse 404 ''ticket-77''))
       (example_module None) example_pending =
       manage_al (example_libs (HttpResponse 404 ''ticket-77'')) (example_module None) example_pending
         example_identity"
    by (simp add: from_dict_to_dict)
  from pending h0 h1 h2 have e3: "state_get (state (fst (snd (handle_al_response (example_libs (HttpResponse 404 ''ticket-77''))
                                   (example_module None) example_pending)))) STATE_KEY
       = Some (to_dict example_identity)"
    by (simp add: example_libs_def)
  from linked h0 h1 h2 have e4: "state_get (state (fst (snd (handle_al_response (example_libs (HttpResponse 200 ''acct-9f3''))
                                   (example_module None) example_pending)))) STATE_KEY
       = None"
    by (simp add: example_libs_def)
  show ?thesis
    using a0 e1 h0 h1 h2 e2 e3 e4 by blast
qed

subsection \<open>Failures of the service\<close>

text \<open>
  C4. When the module is enabled and the service cannot be reached, or answers with a
  status other than 200 and 404, \<open>manage_al\<close> raises \<open>SATOSAAuthenticationError\<close> with a
  message that names the reason (the connection, or the status code), and the context is
  as it was: nothing has been written under \<open>STATE_KEY\<close>.
\<close>

theorem manage_al_service_failure:
  assumes "enabled self" and "attrs self = Some a"
    and "requests_get libs (get_uuid_request libs a (issuer (auth_info ir)) (get_user_id ir)) = reply"
    and "reply = ConnectionError \<or> (\<exists>sc txt. reply = HttpResponse sc txt \<and> sc \<noteq> 200 \<and> sc \<noteq> 404)"
  shows "manage_al libs self context ir =
           (Inl (SATOSAAuthenticationError (state context)
                   (case reply of
                      ConnectionError \<Rightarrow> ''Could not connect to account linking service''
                    | HttpResponse sc txt \<Rightarrow>
                        ''Got status code '' @ [CHR 0x27] @ str_int sc @ [CHR 0x27]
                          @ '' from account linking service'')),
            context,
            [get_uuid_request libs a (issuer (auth_info ir)) (get_user_id ir)])"
proof -
  from assms(4) show ?thesis
  proof
    assume "reply = ConnectionError"
    then show ?thesis
      using assms(1-3) manage_al_connection_error [of self a libs ir "context"]
      by (simp add: get_user_id_def)
  next
    assume "\<exists>sc txt. reply = HttpResponse sc txt \<and> sc \<noteq> 200 \<and> sc \<noteq> 404"
    then obtain sc body where "reply = HttpResponse sc body" "sc \<noteq> 200" "sc \<noteq> 404" by blast
    then show ?thesis
      using assms(1-3) manage_al_status_error [of self a libs ir sc body "context"]
      by (simp add: get_user_id_def)
  qed
qed

theorem manage_al_service_failure_witness:
  "manage_al (example_libs (HttpResponse 500 ''Internal Server Error'')) (example_module None)
        \<lparr>state = Map.empty\<rparr> example_identity =
       (Inl (SATOSAAuthenticationError Map.empty
               (''Got status code '' @ [CHR 0x27] @ ''500'' @ [CHR 0x27] @ '' from account linking service'')),
        \<lparr>state = Map.empty\<rparr>, [example_request])
   \<and> manage_al (example_libs (HttpResponse 403 ''Forbidden'')) (example_module None)
        \<lparr>state = Map.empty\<rparr> example_identity =
       (Inl (SATOSAAuthenticationError Map.empty
               (''Got status code '' @ [CHR 0x27] @ ''403'' @ [CHR 0x27] @ '' from account linking service'')),
        \<lparr>state = Map.empty\<rparr>, [example_request])
   \<and> manage_al (example_libs ConnectionError) (example_module None)
        \<lparr>state = Map.empty\<rparr> example_identity =
       (Inl (SATOSAAuthenticationError Map.empty ''Could not connect to account linking service''),
        \<lparr>state = Map.empty\<rparr>, [example_request])"
proof -
  have h1: "enabled (example_module None)" and h2: "attrs (example_module None) = Some example_attrs"
    using example_module_attrs by simp_all
  have r: "requests_get (example_libs reply)
        (get_uuid_request (example_libs reply) example_attrs
           (issuer (auth_info example_identity)) (get_user_id example_identity)) = reply" for reply
    by (simp add: example_libs_def)
  have s500: "str_int 500 = ''500''" and s403: "str_int 403 = ''403''"
    by code_simp+
  have a: "HttpResponse 500 ''Internal Server Error'' = ConnectionError \<or>
           (\<exists>sc txt. HttpResponse 500 ''Internal Server Error'' = HttpResponse sc txt \<and> sc \<noteq> 200 \<and> sc \<noteq> 404)"
    by simp
  have b: "HttpResponse 403 ''Forbidden'' = ConnectionError \<or>
           (\<exists>sc txt. HttpResponse 403 ''Forbidden'' = HttpResponse sc txt \<and> sc \<noteq> 200 \<and> sc \<noteq> 404)"
    by simp
  have c: "ConnectionError = ConnectionError \<or>
           (\<exists>sc txt. ConnectionError = HttpResponse sc txt \<and> sc \<noteq> 200 \<and> sc \<noteq> 404)"
    by simp
  show ?thesis
    using manage_al_service_failure [OF h1 h2 r a, of "\<lparr>state = Map.empty\<rparr>"]
      manage_al_service_failure [OF h1 h2 r b, of "\<lparr>state = Map.empty\<rparr>"]
      manage_al_service_failure [OF h1 h2 r c, of "\<lparr>state = Map.empty\<rparr>"]
    by (simp add: example_defs s500 s403)
qed

subsection \<open>The disabled module\<close>

text \<open>
  C5. When account linking is not enabled, \<open>manage_al\<close> calls the continuation with the
  context and the identity as it received them; it issues no request and does not change
  the session state.
\<close>

theorem manage_al_disabled:
  assumes "\<not> enabled self"
  shows "manage_al libs self context ir = (Inr (CallbackFunc context ir), context, [])"
  using assms by (simp add: manage_al_def)

theorem manage_al_disabled_witness:
  "\<not> enabled (example_module (Some False))
   \<and> manage_al (example_libs (HttpResponse 200 ''acct-9f3'')) (example_module (Some False))
        example_pending example_identity =
       (Inr (CallbackFunc example_pending example_identity), example_pending, [])
   \<and> \<not> enabled (init (example_libs ConnectionError) \<lparr>BASE = ''https://proxy.example'', ACCOUNT_LINKING = None\<rparr>)
   \<and> manage_al (example_libs ConnectionError)
        (init (example_libs ConnectionError) \<lparr>BASE = ''https://proxy.example'', ACCOUNT_LINKING = None\<rparr>)
        example_pending example_identity =
       (Inr (CallbackFunc example_pending example_identity), example_pending, [])"
proof -
  have h1: "\<not> enabled (example_module (Some False))"
    using example_module_attrs by simp
  have h2: "\<not> enabled (init (example_libs ConnectionError)
                           \<lparr>BASE = ''https://proxy.example'', ACCOUNT_LINKING = None\<rparr>)"
    by (simp add: init_def)
  show ?thesis
    using h1 h2 manage_al_disabled [OF h1] manage_al_disabled [OF h2]
    by simp
qed

subsection \<open>The request to the service\<close>

text \<open>
  C6. For a module constructed from a configuration that enables account linking, the
  only request of \<open>manage_al\<close> is the API URL followed by \<^verbatim>\<open>/get_id?jwt=\<close> and the compact
  JWS, signed with the RS256 key of the configuration, of the JSON serialization of the
  dictionary with \<^verbatim>\<open>idp\<close> the issuer, \<^verbatim>\<open>id\<close> the user id and \<^verbatim>\<open>redirect_endpoint\<close> the
  proxy base followed by \<^verbatim>\<open>/account_linking/handle_account_linking\<close>.
\<close>

theorem manage_al_outbound_request:
  assumes "ACCOUNT_LINKING cfg = Some al" and "enable al \<noteq> Some False"
  shows "snd (snd (manage_al libs (init libs cfg) context ir)) =
           [config_api_url al @ ''/get_id?jwt='' @
              JWS_sign_compact libs
                (json_dumps libs
                   [(''idp'', issuer (auth_info ir)),
                    (''id'', get_user_id ir),
                    (''redirect_endpoint'', BASE cfg @ ''/account_linking/handle_account_linking'')])
                ''RS256''
                [\<lparr>key = rsa_load libs (sign_key al), use = ''sig'', alg = ''RS256''\<rparr>]]"
  using manage_al_sent [OF init_enabled [OF assms]]
  by (simp add: get_uuid_request_def)

theorem manage_al_outbound_request_witness:
  "ACCOUNT_LINKING (example_config None) =
     Some \<lparr>enable = None, config_api_url = ''https://link.example/api'',
           config_redirect_url = ''https://link.example/approve'', sign_key = ''key.pem''\<rparr>
   \<and> snd (snd (manage_al (example_libs (HttpResponse 404 ''ticket-77''))
                 (init (example_libs (HttpResponse 404 ''ticket-77'')) (example_config None))
                 \<lparr>state = Map.empty\<rparr> example_identity)) =
       [''https://link.example/api/get_id?jwt=RS256.idp=https://idp.example;id=abc123;redirect_endpoint=https://proxy.example/account_linking/handle_account_linking;'']"
proof -
  have h1: "ACCOUNT_LINKING (example_config None) =
     Some \<lparr>enable = None, config_api_url = ''https://link.example/api'',
           config_redirect_url = ''https://link.example/approve'', sign_key = ''key.pem''\<rparr>"
    by (simp add: example_config_def)
  have h2: "enable \<lparr>enable = None, config_api_url = ''https://link.example/api'',
           config_redirect_url = ''https://link.example/approve'', sign_key = ''key.pem''\<rparr> \<noteq> Some False"
    by simp
  show ?thesis
    using h1 manage_al_outbound_request [OF h1 h2, where libs = "example_libs (HttpResponse 404 ''ticket-77'')"
        and ir = example_identity]
    by (simp add: example_defs example_config_def)
qed

subsection \<open>Resumption\<close>

text \<open>
  C7. When the session holds the serialization of an identity under \<open>STATE_KEY\<close>, the
  handler of the callback endpoint does what \<open>manage_al\<close> does for that identity on the
  same context: the same request, result and context. In particular, when the service
  now answers 200 with body \<open>U\<close>, the continuation is called with the user id replaced by
  \<open>U\<close> and the pending link state removed, as in the direct case.
\<close>

theorem handle_al_response_resumes:
  assumes "state_get (state context) STATE_KEY = Some (to_dict ir)"
  shows "handle_al_response libs self context = manage_al libs self context ir
         \<and> (enabled self \<and> attrs self = Some a
              \<and> requests_get libs (get_uuid_request libs a (issuer (auth_info ir)) (get_user_id ir))
                  = HttpResponse 200 U
            \<longrightarrow> handle_al_response libs self context =
                  (Inr (CallbackFunc (context\<lparr>state := (state context)(STATE_KEY := None)\<rparr>)
                          (set_user_id ir U)),
                   context\<lparr>state := (state context)(STATE_KEY := None)\<rparr>,
                   [get_uuid_request libs a (issuer (auth_info ir)) (get_user_id ir)]))"
proof -
  from assms have saved: "state context STATE_KEY = Some (to_dict ir)"
    by (simp add: state_get_def)
  then have eq: "handle_al_response libs self context = manage_al libs self context ir"
    by (rule handle_al_response_saved)
  show ?thesis
    using eq manage_al_200 [of self a libs ir U "context"]
    by (simp add: get_user_id_def set_user_id_def)
qed

theorem handle_al_response_resumes_witness:
  "state_get (state example_pending) STATE_KEY = Some (to_dict example_identity)
   \<and> enabled (example_module None) \<and> attrs (example_module None) = Some example_attrs
   \<and> handle_al_response (example_libs (HttpResponse 200 ''acct-9f3'')) (example_module None)
        example_pending =
      manage_al (example_libs (HttpResponse 200 ''acct-9f3'')) (example_module None)
        example_pending example_identity
   \<and> handle_al_response (example_libs (HttpResponse 200 ''acct-9f3'')) (example_module None)
        example_pending =
       (Inr (CallbackFunc \<lparr>state = Map.empty\<rparr>
               \<lparr>auth_info = \<lparr>issuer = ''https://idp.example''\<rparr>, user_id = ''acct-9f3'',
                attributes = [(''mail'', [''user@idp.example''])]\<rparr>),
        \<lparr>state = Map.empty\<rparr>, [example_request])"
proof -
  have h0: "state_get (state example_pending) STATE_KEY = Some (to_dict example_identity)"
    by (simp add: state_get_def example_pending_def)
  have h1: "enabled (example_module None)" and h2: "attrs (example_module None) = Some example_attrs"
    using example_module_attrs by simp_all
  have h3: "requests_get (example_libs (HttpResponse 200 ''acct-9f3''))
        (get_uuid_request (example_libs (HttpResponse 200 ''acct-9f3'')) example_attrs
           (issuer (auth_info example_identity)) (get_user_id example_identity))
      = HttpResponse 200 ''acct-9f3''"
    by (simp add: example_libs_def)
  note t = handle_al_response_resumes [OF h0, of "example_libs (HttpResponse 200 ''acct-9f3'')"
        "example_module None" example_attrs "''acct-9f3''"]
  from t have e1: "handle_al_response (example_libs (HttpResponse 200 ''acct-9f3'')) (example_module None)
        example_pending =
      manage_al (example_libs (HttpResponse 200 ''acct-9f3'')) (example_module None)
        example_pending example_identity"
    by (rule conjunct1)
  from t h1 h2 h3 have "handle_al_response (example_libs (HttpResponse 200 ''acct-9f3'')) (example_module None)
        example_pending =
       (Inr (CallbackFunc (example_pending\<lparr>state := (state example_pending)(STATE_KEY := None)\<rparr>)
                          (set_user_id example_identity ''acct-9f3'')),
        example_pending\<lparr>state := (state example_pending)(STATE_KEY := None)\<rparr>,
        [get_uuid_request (example_libs (HttpResponse 200 ''acct-9f3'')) example_attrs
           (issuer (auth_info example_identity)) (get_user_id example_identity)])"
    by blast
  then have e2: "handle_al_response (example_libs (HttpResponse 200 ''acct-9f3'')) (example_module None)
        example_pending =
       (Inr (CallbackFunc \<lparr>state = Map.empty\<rparr>
               \<lparr>auth_info = \<lparr>issuer = ''https://idp.example''\<rparr>, user_id = ''acct-9f3'',
                attributes = [(''mail'', [''user@idp.example''])]\<rparr>),
        \<lparr>state = Map.empty\<rparr>, [example_request])"
    by (simp add: example_defs)
  show ?thesis
    using h0 h1 h2 e1 e2 by blast
qed

subsection \<open>What the module changes in the identity\<close>

text \<open>
  C8. The identity that the continuation receives from \<open>manage_al\<close> has the
  authentication information, hence the issuer, and the attributes of the identity
  handed in, and differs from it at most in the user id. The identity stored on a redirect
  is the serialization of the identity handed in, and the identity that the continuation
  receives on resumption from that stored state again has its issuer and attributes.
\<close>

theorem callback_identity_frame:
  "(manage_al libs self ctx ir = (Inr (CallbackFunc ctx' ir'), rest)
      \<longrightarrow> auth_info ir' = auth_info ir \<and> attributes ir' = attributes ir
          \<and> ir' = set_user_id ir (get_user_id ir'))
   \<and> (manage_al libs self ctx ir = (Inr (Redirect url), ctx', sent)
      \<longrightarrow> state_get (state ctx') STATE_KEY = Some (to_dict ir))
   \<and> (state_get (state ctx) STATE_KEY = Some (to_dict ir)
       \<and> handle_al_response libs self ctx = (Inr (CallbackFunc ctx' ir'), rest)
      \<longrightarrow> auth_info ir' = auth_info ir \<and> attributes ir' = attributes ir
          \<and> ir' = set_user_id ir (get_user_id ir'))"
proof -
  have direct: "auth_info j' = auth_info j \<and> attributes j' = attributes j \<and> j' = set_user_id j (get_user_id j')"
    if "manage_al libs self ctx j = (Inr (CallbackFunc c' j'), r)" for j j' c' r
    using that
    by (auto simp: manage_al_def set_user_id_def get_user_id_def approve_new_id_def Let_def
             split: if_splits option.splits sum.splits prod.splits error.splits)
  have saved: "state_get (state ctx') STATE_KEY = Some (to_dict ir)"
    if "manage_al libs self ctx ir = (Inr (Redirect url), ctx', sent)"
    using that
    by (auto simp: manage_al_def approve_new_id_def state_add_def state_get_def Let_def
             split: if_splits option.splits sum.splits prod.splits error.splits)
  have resumed: "handle_al_response libs self ctx = manage_al libs self ctx ir"
    if "state_get (state ctx) STATE_KEY = Some (to_dict ir)"
    using that handle_al_response_saved [of ctx ir libs self] by (simp add: state_get_def)
  show ?thesis
    using direct saved resumed by metis
qed

theorem callback_identity_frame_witness:
  "manage_al (example_libs (HttpResponse 404 ''ticket-77'')) (example_module None)
        \<lparr>state = Map.empty\<rparr> example_identity =
       (Inr (Redirect ''https://link.example/approve/ticket-77''), example_pending, [example_request])
   \<and> state_get (state example_pending) STATE_KEY = Some (to_dict example_identity)
   \<and> handle_al_response (example_libs (HttpResponse 200 ''acct-9f3'')) (example_module None)
        example_pending =
       (Inr (CallbackFunc \<lparr>state = Map.empty\<rparr> (set_user_id example_identity ''acct-9f3'')),
        \<lparr>state = Map.empty\<rparr>, [example_request])
   \<and> manage_al (example_libs (HttpResponse 200 ''acct-9f3'')) (example_module None)
        example_pending example_identity =
       (Inr (CallbackFunc \<lparr>state = Map.empty\<rparr> (set_user_id example_identity ''acct-9f3'')),
        \<lparr>state = Map.empty\<rparr>, [example_request])
   \<and> auth_info (set_user_id example_identity ''acct-9f3'') = auth_info example_identity
   \<and> attributes (set_user_id example_identity ''acct-9f3'') = attributes example_identity
   \<and> set_user_id example_identity ''acct-9f3'' =
       set_user_id example_identity (get_user_id (set_user_id example_identity ''acct-9f3''))"
proof -
  have h1: "enabled (example_module None)" and h2: "attrs (example_module None) = Some example_attrs"
    using example_module_attrs by simp_all
  have r: "requests_get (example_libs reply)
        (get_uuid_request (example_libs reply) example_attrs
           (issuer (auth_info example_identity)) (user_id example_identity)) = reply" for reply
    by (simp add: example_libs_def)
  have m404: "manage_al (example_libs (HttpResponse 404 ''ticket-77'')) (example_module None)
        \<lparr>state = Map.empty\<rparr> example_identity =
       (Inr (Redirect ''https://link.example/approve/ticket-77''), example_pending, [example_request])"
    using manage_al_404 [OF h1 h2 r, of "''ticket-77''" "\<lparr>state = Map.empty\<rparr>"]
    by (simp add: example_defs)
  have m200: "manage_al (example_libs (HttpResponse 200 ''acct-9f3'')) (example_module None)
        example_pending example_identity =
       (Inr (CallbackFunc \<lparr>state = Map.empty\<rparr> (set_user_id example_identity ''acct-9f3'')),
        \<lparr>state = Map.empty\<rparr>, [example_request])"
    using manage_al_200 [OF h1 h2 r, of "''acct-9f3''" example_pending]
    by (simp add: example_defs)
  note t = callback_identity_frame [where libs = "example_libs (HttpResponse 404 ''ticket-77'')"
         and self = "example_module None" and ctx = "\<lparr>state = Map.empty\<rparr>" and ir = example_identity
         and ctx' = example_pending and url = "''https://link.example/approve/ticket-77''"
         and sent = "[example_request]"]
  from t m404 have h0: "state_get (state example_pending) STATE_KEY = Some (to_dict example_identity)"
    by blast
  have h200: "handle_al_response (example_libs (HttpResponse 200 ''acct-9f3'')) (example_module None)
        example_pending =
       (Inr (CallbackFunc \<lparr>state = Map.empty\<rparr> (set_user_id example_identity ''acct-9f3'')),
        \<lparr>state = Map.empty\<rparr>, [example_request])"
    using m200 h0 handle_al_response_saved [of example_pending example_identity
        "example_libs (HttpResponse 200 ''acct-9f3'')" "example_module None"]
    by (simp add: state_get_def)
  note u = callback_identity_frame [where libs = "example_libs (HttpResponse 200 ''acct-9f3'')"
         and self = "example_module None" and ctx = example_pending and ir = example_identity
         and ctx' = "\<lparr>state = Map.empty\<rparr>" and ir' = "set_user_id example_identity ''acct-9f3''"
         and rest = "(\<lparr>state = Map.empty\<rparr>, [example_request])"]
  from u m200 have direct: "auth_info (set_user_id example_identity ''acct-9f3'') = auth_info example_identity
      \<and> attributes (set_user_id example_identity ''acct-9f3'') = attributes example_identity
      \<and> set_user_id example_identity ''acct-9f3'' =
          set_user_id example_identity (get_user_id (set_user_id example_identity ''acct-9f3''))"
    by blast
  from u h0 h200 have resumed: "auth_info (set_user_id example_identity ''acct-9f3'') = auth_info example_identity
      \<and> attributes (set_user_id example_identity ''acct-9f3'') = attributes example_identity"
    by blast
  show ?thesis
    using m404 h0 h200 m200 direct resumed by blast
qed

subsection \<open>Clearing a state that is not there\<close>

text \<open>
  C9. When the session state has no value under \<open>STATE_KEY\<close>, the removal on the 200
  path raises \<^verbatim>\<open>KeyError\<close>, which \<open>manage_al\<close> catches: the call completes with the
  continuation called on the unchanged context and the updated identity.
\<close>

theorem manage_al_clear_absent:
  assumes "state_get (state context) STATE_KEY = None"
    and "enabled self" and "attrs self = Some a"
    and "requests_get libs (get_uuid_request libs a (issuer (auth_info ir)) (get_user_id ir)) = HttpResponse 200 U"
  shows "state_remove (state context) STATE_KEY = Inl (KeyError STATE_KEY)
         \<and> manage_al libs self context ir =
             (Inr (CallbackFunc context (set_user_id ir U)), context,
              [get_uuid_request libs a (issuer (auth_info ir)) (get_user_id ir)])"
proof -
  from assms(1) have absent: "state context STATE_KEY = None"
    by (simp add: state_get_def)
  then have "(state context)(STATE_KEY := None) = state context"
    by (simp add: fun_upd_idem_iff)
  then have "context\<lparr>state := (state context)(STATE_KEY := None)\<rparr> = context"
    by simp
  then show ?thesis
    using absent assms(2-4) manage_al_200 [of self a libs ir U "context"]
    by (simp add: state_remove_def get_user_id_def set_user_id_def)
qed

theorem manage_al_clear_absent_witness:
  "state_get (state \<lparr>state = Map.empty\<rparr>) STATE_KEY = None
   \<and> state_remove Map.empty STATE_KEY = Inl (KeyError ''ACCOUNT_LINKING'')
   \<and> manage_al (example_libs (HttpResponse 200 ''acct-9f3'')) (example_module None)
        \<lparr>state = Map.empty\<rparr> example_identity =
       (Inr (CallbackFunc \<lparr>state = Map.empty\<rparr>
               \<lparr>auth_info = \<lparr>issuer = ''https://idp.example''\<rparr>, user_id = ''acct-9f3'',
                attributes = [(''mail'', [''user@idp.example''])]\<rparr>),
        \<lparr>state = Map.empty\<rparr>, [example_request])"
proof -
  have h0: "state_get (state \<lparr>state = Map.empty\<rparr>) STATE_KEY = None"
    by (simp add: state_get_def)
  have h1: "enabled (example_module None)" and h2: "attrs (example_module None) = Some example_attrs"
    using example_module_attrs by simp_all
  have h3: "requests_get (example_libs (HttpResponse 200 ''acct-9f3''))
        (get_uuid_request (example_libs (HttpResponse 200 ''acct-9f3'')) example_attrs
           (issuer (auth_info example_identity)) (get_user_id example_identity))
      = HttpResponse 200 ''acct-9f3''"
    by (simp add: example_libs_def)
  show ?thesis
    using h0 manage_al_clear_absent [OF h0 h1 h2 h3]
    by (simp add: example_defs STATE_KEY_def)
qed

subsection \<open>Failure of the service on resumption\<close>

text \<open>
  C10. When the handler of the callback endpoint finds a pending link state and the
  service then cannot be reached or answers with a status other than 200 and 404, the
  handler raises \<open>SATOSAAuthenticationError\<close> and the context is as it was: the pending
  link state is still stored under \<open>STATE_KEY\<close>.
\<close>

theorem handle_al_response_failure_keeps_state:
  assumes "state_get (state context) STATE_KEY = Some d"
    and "from_dict (Some d) = Inr ir"
    and "enabled self" and "attrs self = Some a"
    and "requests_get libs (get_uuid_request libs a (issuer (auth_info ir)) (get_user_id ir)) = reply"
    and "reply = ConnectionError \<or> (\<exists>sc txt. reply = HttpResponse sc txt \<and> sc \<noteq> 200 \<and> sc \<noteq> 404)"
  shows "(\<exists>msg. fst (handle_al_response libs self context) = Inl (SATOSAAuthenticationError (state context) msg))
         \<and> fst (snd (handle_al_response libs self context)) = context
         \<and> state_get (state (fst (snd (handle_al_response libs self context)))) STATE_KEY = Some d"
proof -
  from assms(1) have present: "state context STATE_KEY = Some d"
    by (simp add: state_get_def)
  with assms(2) have eq: "handle_al_response libs self context = manage_al libs self context ir"
    by (simp add: handle_al_response_def state_get_def)
  from assms(6) show ?thesis
  proof
    assume "reply = ConnectionError"
    then show ?thesis
      using assms(1,3-5) eq manage_al_connection_error [of self a libs ir "context"]
      by (simp add: get_user_id_def)
  next
    assume "\<exists>sc txt. reply = HttpResponse sc txt \<and> sc \<noteq> 200 \<and> sc \<noteq> 404"
    then obtain sc body where "reply = HttpResponse sc body" "sc \<noteq> 200" "sc \<noteq> 404" by blast
    then show ?thesis
      using assms(1,3-5) eq manage_al_status_error [of self a libs ir sc body "context"]
      by (simp add: get_user_id_def)
  qed
qed

theorem handle_al_response_failure_keeps_state_witness:
  "state_get (state example_pending) STATE_KEY = Some (to_dict example_identity)
   \<and> from_dict (Some (to_dict example_identity)) = Inr example_identity
   \<and> fst (snd (handle_al_response (example_libs (HttpResponse 500 ''Internal Server Error''))
                 (example_module None) example_pending)) = example_pending
   \<and> state_get (state (fst (snd (handle_al_response (example_libs (HttpResponse 500 ''Internal Server Error''))
                 (example_module None) example_pending)))) STATE_KEY = Some (to_dict example_identity)
   \<and> fst (snd (handle_al_response (example_libs ConnectionError)
                 (example_module None) example_pending)) = example_pending"
proof -
  have h0: "state_get (state example_pending) STATE_KEY = Some (to_dict example_identity)"
    by (simp add: state_get_def example_pending_def)
  have hf: "from_dict (Some (to_dict example_identity)) = Inr example_identity"
    by (rule from_dict_to_dict)
  have h1: "enabled (example_module None)" and h2: "attrs (example_module None) = Some example_attrs"
    using example_module_attrs by simp_all
  have r: "requests_get (example_libs reply)
        (get_uuid_request (example_libs reply) example_attrs
           (issuer (auth_info example_identity)) (get_user_id example_identity)) = reply" for reply
    by (simp add: example_libs_def)
  have a: "HttpResponse 500 ''Internal Server Error'' = ConnectionError \<or>
           (\<exists>sc txt. HttpResponse 500 ''Internal Server Error'' = HttpResponse sc txt \<and> sc \<noteq> 200 \<and> sc \<noteq> 404)"
    by simp
  have c: "ConnectionError = ConnectionError \<or>
           (\<exists>sc txt. ConnectionError = HttpResponse sc txt \<and> sc \<noteq> 200 \<and> sc \<noteq> 404)"
    by simp
  show ?thesis
    using h0 hf handle_al_response_failure_keeps_state [OF h0 hf h1 h2 r a]
      handle_al_response_failure_keeps_state [OF h0 hf h1 h2 r c]
    by simp
qed

end
